theory Spec2Isabelle
  imports Main
begin

section \<open>Errors\<close>

text \<open>
  Every exception of the Python source is a value. Nothing in the source catches an
  exception, so each one ends the call that raised it and is what the caller sees.
\<close>

datatype error =
    FileNotFoundError string
  | IndexError
  | AudioIOError string
  | AudioDecodeError string
  | RuntimeError
  | LibraryError string

section \<open>Python text: \<open>readlines\<close>, \<open>strip\<close>, \<open>split\<close>\<close>

text \<open>
  Text is a \<open>string\<close>; a character stands for the code point of the same number, so the
  model covers the code points below 256. \<open>isspace\<close> is Python's \<open>str.isspace\<close> on
  these: TAB, LF, VT, FF, CR, the separators 28 to 31, the space, NEL (133) and the
  no-break space (160).
\<close>

definition isspace :: "char \<Rightarrow> bool" where
  "isspace c =
     (let n = (of_char c :: nat)
      in (9 \<le> n \<and> n \<le> 13) \<or> (28 \<le> n \<and> n \<le> 32) \<or> n = 133 \<or> n = 160)"

definition LF :: char where
  "LF = CHR 0x0A"

definition CR :: char where
  "CR = CHR 0x0D"

text \<open>
  \<open>open(protocol_path, 'r')\<close> reads in text mode with universal newlines: \<open>CR LF\<close> and
  a lone \<open>CR\<close> arrive as \<open>LF\<close>.
\<close>

fun translate_newlines :: "string \<Rightarrow> string" where
  "translate_newlines [] = []"
| "translate_newlines [c] = (if c = CR then [LF] else [c])"
| "translate_newlines (c # d # cs) =
     (if c = CR \<and> d = LF then LF # translate_newlines cs
      else if c = CR then LF # translate_newlines (d # cs)
      else c # translate_newlines (d # cs))"

text \<open>
  \<open>f.readlines()\<close>: the lines of the file in order, each with its terminating \<open>LF\<close>; the
  text after the last \<open>LF\<close>, when there is some, is a last line without one.
\<close>

fun lines_from :: "string \<Rightarrow> string \<Rightarrow> string list" where
  "lines_from cur [] = (if cur = [] then [] else [cur])"
| "lines_from cur (c # cs) =
     (if c = LF then (cur @ [c]) # lines_from [] cs else lines_from (cur @ [c]) cs)"

definition readlines :: "string \<Rightarrow> string list" where
  "readlines content = lines_from [] (translate_newlines content)"

definition strip :: "string \<Rightarrow> string" where
  "strip s = rev (dropWhile isspace (rev (dropWhile isspace s)))"

text \<open>
  \<open>s.split()\<close> with no argument: the maximal runs of characters that are not whitespace,
  in order; never an empty string.
\<close>

fun split_from :: "string \<Rightarrow> string \<Rightarrow> string list" where
  "split_from cur [] = (if cur = [] then [] else [cur])"
| "split_from cur (c # cs) =
     (if isspace c then (if cur = [] then split_from [] cs else cur # split_from [] cs)
      else split_from (cur @ [c]) cs)"

definition split :: "string \<Rightarrow> string list" where
  "split s = split_from [] s"

section \<open>The Metadata Loader: \<open>ASVspoofWhisperDataset.load_metadata\<close>\<close>

type_synonym entry = "string \<times> int"

text \<open>
  One turn of the loop body: \<open>parts = line.strip().split()\<close>, then \<open>parts[1]\<close> and
  \<open>parts[4]\<close>, each of which raises \<open>IndexError\<close> when the list is too short.
\<close>

definition parts_of :: "string \<Rightarrow> string list" where
  "parts_of line = split (strip line)"

definition parse_line :: "string \<Rightarrow> error + entry" where
  "parse_line line =
     (let parts = parts_of line
      in if \<not> 1 < length parts then Inl IndexError
         else let filename = parts ! 1
              in if \<not> 4 < length parts then Inl IndexError
                 else let label = (if parts ! 4 = ''bonafide'' then 0 else 1)
                      in Inr (filename, label))"

text \<open>The loop over the lines, \<open>data\<close> being the list built by \<open>data.append\<close>.\<close>

fun load_metadata_loop :: "string list \<Rightarrow> entry list \<Rightarrow> error + entry list" where
  "load_metadata_loop [] data = Inr data"
| "load_metadata_loop (line # rest) data =
     (case parse_line line of
        Inl e \<Rightarrow> Inl e
      | Inr item \<Rightarrow> load_metadata_loop rest (data @ [item]))"

text \<open>
  The file system is a map from paths to the text of the file; \<open>open\<close> on a path that
  is not there raises \<open>FileNotFoundError\<close>.
\<close>

definition load_metadata :: "(string \<rightharpoonup> string) \<Rightarrow> string \<Rightarrow> error + entry list" where
  "load_metadata fs protocol_path =
     (case fs protocol_path of
        None \<Rightarrow> Inl (FileNotFoundError protocol_path)
      | Some content \<Rightarrow> load_metadata_loop (readlines content) [])"

section \<open>Tensors\<close>

text \<open>
  A tensor is what torch keeps: the sizes of its dimensions and the elements in
  row-major order. The element type is left open (the source holds floating-point
  numbers); padding needs a zero. A tensor is valid when it has as many elements as its
  sizes say.
\<close>

record 'a tensor =
  sizes :: "nat list"
  storage :: "'a list"

definition valid_tensor :: "'a tensor \<Rightarrow> bool" where
  "valid_tensor t = (length (storage t) = prod_list (sizes t))"

text \<open>\<open>t.squeeze(0)\<close> drops dimension 0 when its size is 1 and returns \<open>t\<close> otherwise.\<close>

definition squeeze0 :: "'a tensor \<Rightarrow> 'a tensor" where
  "squeeze0 t =
     (case sizes t of
        [] \<Rightarrow> t
      | d # ds \<Rightarrow> if d = 1 then t\<lparr>sizes := ds\<rparr> else t)"

text \<open>\<open>t.size(-1)\<close> raises \<open>IndexError\<close> on a tensor with no dimension.\<close>

definition size_last :: "'a tensor \<Rightarrow> error + nat" where
  "size_last t = (if sizes t = [] then Inl IndexError else Inr (last (sizes t)))"

text \<open>The first \<open>k\<close> blocks of \<open>n\<close> consecutive elements.\<close>

definition chunks :: "nat \<Rightarrow> nat \<Rightarrow> 'a list \<Rightarrow> 'a list list" where
  "chunks k n xs = map (\<lambda>i. take n (drop (i * n) xs)) [0..<k]"

text \<open>Row \<open>i\<close> of a matrix, \<open>t[i]\<close>: the elements along its last dimension.\<close>

definition row :: "'a tensor \<Rightarrow> nat \<Rightarrow> 'a list" where
  "row t i = (let n = last (sizes t) in take n (drop (i * n) (storage t)))"

text \<open>
  \<open>F.pad(t, (0, padding), mode='constant', value=0)\<close>: \<open>padding\<close> zeros after every run
  along the last dimension. A tensor with no dimension is refused with a
  \<open>RuntimeError\<close>.
\<close>

definition F_pad :: "'a::zero tensor \<Rightarrow> nat \<Rightarrow> error + 'a tensor" where
  "F_pad t padding =
     (if sizes t = [] then Inl RuntimeError
      else let n = last (sizes t); outer = butlast (sizes t)
           in Inr \<lparr>sizes = outer @ [n + padding],
                   storage = concat (map (\<lambda>r. r @ replicate padding 0)
                                         (chunks (prod_list outer) n (storage t)))\<rparr>)"

text \<open>
  The end of the Python slice \<open>[:stop]\<close> on a dimension of size \<open>n\<close>: a negative
  \<open>stop\<close> counts from the end, and the result is clipped to \<open>0 .. n\<close>.
\<close>

definition slice_stop :: "int \<Rightarrow> nat \<Rightarrow> nat" where
  "slice_stop stop n = (if stop < 0 then nat (int n + stop) else min (nat stop) n)"

text \<open>
  \<open>t[:, :stop]\<close>: all of dimension 0 and the slice \<open>[:stop]\<close> of dimension 1. Two
  indices on a tensor with fewer than two dimensions raise \<open>IndexError\<close>.
\<close>

definition slice_dim1 :: "'a tensor \<Rightarrow> int \<Rightarrow> error + 'a tensor" where
  "slice_dim1 t stop =
     (case sizes t of
        d0 # d1 # inner \<Rightarrow>
          let k = slice_stop stop d1; w = prod_list inner
          in Inr \<lparr>sizes = d0 # k # inner,
                  storage = concat (map (take (k * w)) (chunks d0 (d1 * w) (storage t)))\<rparr>
      | _ \<Rightarrow> Inl IndexError)"

section \<open>The dataset: \<open>ASVspoofWhisperDataset\<close>\<close>

record dataset =
  audio_dir :: string
  metadata :: "entry list"
  sampling_rate :: int
  target_length :: int

text \<open>\<open>__init__\<close>, and the call that leaves the two keyword arguments at their defaults.\<close>

definition init ::
  "(string \<rightharpoonup> string) \<Rightarrow> string \<Rightarrow> string \<Rightarrow> int \<Rightarrow> int \<Rightarrow> error + dataset" where
  "init fs dir protocol_path rate tlen =
     (case load_metadata fs protocol_path of
        Inl e \<Rightarrow> Inl e
      | Inr md \<Rightarrow> Inr \<lparr>audio_dir = dir, metadata = md,
                       sampling_rate = rate, target_length = tlen\<rparr>)"

definition init_default ::
  "(string \<rightharpoonup> string) \<Rightarrow> string \<Rightarrow> string \<Rightarrow> error + dataset" where
  "init_default fs dir protocol_path = init fs dir protocol_path 16000 3000"

definition len :: "dataset \<Rightarrow> nat" where
  "len ds = length (metadata ds)"

text \<open>\<open>xs[i]\<close> on a Python list: a negative index counts from the end.\<close>

definition list_get :: "'a list \<Rightarrow> int \<Rightarrow> error + 'a" where
  "list_get xs i =
     (if 0 \<le> i \<and> i < int (length xs) then Inr (xs ! nat i)
      else if - int (length xs) \<le> i \<and> i < 0 then Inr (xs ! nat (int (length xs) + i))
      else Inl IndexError)"

section \<open>The libraries the pipeline calls\<close>

text \<open>
  \<open>os.path.join\<close>, the decoder behind \<open>torchaudio.load\<close>, \<open>torchaudio.transforms.Resample\<close>
  and the Whisper feature extractor are not code of this repository. They are
  parameters: any function of the right type may stand for each, and each may raise.
  \<open>audio_files\<close> is the part of the file system that holds the audio, a map from paths
  to the bytes of the file.
\<close>

record 'a libraries =
  os_path_join :: "string \<Rightarrow> string \<Rightarrow> string"
  audio_files :: "string \<rightharpoonup> string"
  decode :: "string \<Rightarrow> error + ('a tensor \<times> int)"
  resample :: "int \<Rightarrow> int \<Rightarrow> 'a tensor \<Rightarrow> error + 'a tensor"
  feature_extractor :: "'a tensor \<Rightarrow> int \<Rightarrow> error + 'a tensor"

text \<open>
  Modelled from the spec: \<open>torchaudio.load\<close> is a library function, missing from the
  sources. By section 4.2 of the specification a missing file is a fatal I/O error and
  an encoding that cannot be decoded is a fatal decode error (whatever \<open>decode\<close>
  raises); otherwise the call returns the waveform and its native sample rate.
\<close>

definition torchaudio_load ::
  "'a libraries \<Rightarrow> string \<Rightarrow> error + ('a tensor \<times> int)" where
  "torchaudio_load lib audio_path =
     (case audio_files lib audio_path of
        None \<Rightarrow> Inl (AudioIOError audio_path)
      | Some bytes \<Rightarrow> decode lib bytes)"

section \<open>The Feature Pipeline: \<open>ASVspoofWhisperDataset.__getitem__\<close>\<close>

text \<open>
  Lines 38 to 52: the entry, the path, the load, the resampling when the rates differ,
  and \<open>squeeze(0)\<close>. The result is the waveform handed to the feature extractor,
  with the label of the entry.
\<close>

definition extractor_input ::
  "'a libraries \<Rightarrow> dataset \<Rightarrow> int \<Rightarrow> error + ('a tensor \<times> int)" where
  "extractor_input lib ds idx =
     (case list_get (metadata ds) idx of
        Inl e \<Rightarrow> Inl e
      | Inr (filename, label) \<Rightarrow>
          let audio_path = os_path_join lib (audio_dir ds) (filename @ ''.flac'')
          in case torchaudio_load lib audio_path of
               Inl e \<Rightarrow> Inl e
             | Inr (waveform, sample_rate) \<Rightarrow>
                 (case (if sample_rate \<noteq> sampling_rate ds
                        then resample lib sample_rate (sampling_rate ds) waveform
                        else Inr waveform) of
                    Inl e \<Rightarrow> Inl e
                  | Inr waveform' \<Rightarrow> Inr (squeeze0 waveform', label)))"

text \<open>Lines 62 to 68: pad or truncate to the target length.\<close>

definition pad_or_truncate :: "int \<Rightarrow> 'a::zero tensor \<Rightarrow> error + 'a tensor" where
  "pad_or_truncate tlen mel_features =
     (case size_last mel_features of
        Inl e \<Rightarrow> Inl e
      | Inr n \<Rightarrow>
          if int n < tlen
          then let padding = tlen - int n in F_pad mel_features (nat padding)
          else slice_dim1 mel_features tlen)"

text \<open>
  The whole of \<open>__getitem__\<close>: the waveform goes through the feature extractor, the
  batch dimension is squeezed away, and the result is padded or truncated. What the
  source prints on the way is left out; it changes no value.
\<close>

definition getitem ::
  "'a::zero libraries \<Rightarrow> dataset \<Rightarrow> int \<Rightarrow> error + ('a tensor \<times> int)" where
  "getitem lib ds idx =
     (case extractor_input lib ds idx of
        Inl e \<Rightarrow> Inl e
      | Inr (waveform, label) \<Rightarrow>
          (case feature_extractor lib waveform (sampling_rate ds) of
             Inl e \<Rightarrow> Inl e
           | Inr input_features \<Rightarrow>
               (case pad_or_truncate (target_length ds) (squeeze0 input_features) of
                  Inl e \<Rightarrow> Inl e
                | Inr mel_features \<Rightarrow> Inr (mel_features, label))))"

section \<open>Example inputs\<close>

text \<open>
  A small file system and toy libraries on integer samples, for evaluating the
  pipeline: the decoder knows three files, the resampler repeats every sample of a
  one-channel waveform, and the extractor makes two feature rows out of a
  one-dimensional waveform, one frame per sample.
\<close>

definition example_decode :: "string \<Rightarrow> error + (int tensor \<times> int)" where
  "example_decode bytes =
     (if bytes = ''mono16k'' then Inr (\<lparr>sizes = [1, 3], storage = [7, 8, 9]\<rparr>, 16000)
      else if bytes = ''mono8k'' then Inr (\<lparr>sizes = [1, 2], storage = [5, 6]\<rparr>, 8000)
      else if bytes = ''stereo16k''
        then Inr (\<lparr>sizes = [2, 3], storage = [1, 2, 3, 4, 5, 6]\<rparr>, 16000)
      else Inl (AudioDecodeError bytes))"

definition example_resample :: "int \<Rightarrow> int \<Rightarrow> int tensor \<Rightarrow> error + int tensor" where
  "example_resample orig_freq new_freq w =
     (case sizes w of
        [c, n] \<Rightarrow> if c = 1
                  then Inr \<lparr>sizes = [1, 2 * n], storage = concat (map (\<lambda>x. [x, x]) (storage w))\<rparr>
                  else Inl (LibraryError ''resample'')
      | _ \<Rightarrow> Inl (LibraryError ''resample''))"

definition example_extractor :: "int tensor \<Rightarrow> int \<Rightarrow> error + int tensor" where
  "example_extractor w rate =
     (case sizes w of
        [n] \<Rightarrow> Inr \<lparr>sizes = [1, 2, n], storage = storage w @ map uminus (storage w)\<rparr>
      | _ \<Rightarrow> Inl (LibraryError ''extractor''))"

definition example_lib :: "int libraries" where
  "example_lib =
     \<lparr>os_path_join = (\<lambda>d f. d @ ''/'' @ f),
      audio_files = [''flac/LA_T_0001.flac'' \<mapsto> ''mono16k'',
                     ''flac/LA_T_0002.flac'' \<mapsto> ''mono8k'',
                     ''flac/LA_T_0003.flac'' \<mapsto> ''stereo16k''],
      decode = example_decode,
      resample = example_resample,
      feature_extractor = example_extractor\<rparr>"

definition example_ds :: "int \<Rightarrow> dataset" where
  "example_ds tlen =
     \<lparr>audio_dir = ''flac'',
      metadata = [(''LA_T_0001'', 0), (''LA_T_0002'', 1), (''LA_T_0003'', 1),
                  (''LA_T_0004'', 0)],
      sampling_rate = 16000, target_length = tlen\<rparr>"

text \<open>A feature matrix of two rows and three frames, and two protocol files.\<close>

definition example_mel :: "int tensor" where
  "example_mel = \<lparr>sizes = [2, 3], storage = [7, 8, 9, - 7, - 8, - 9]\<rparr>"

definition example_fs :: "string \<rightharpoonup> string" where
  "example_fs =
     [''trn.txt'' \<mapsto> ''LA_0001 LA_T_0001 - - bonafide'' @ [LF] @
                       ''LA_0001 LA_T_0002 - - spoof'' @ [LF],
      ''bad.txt'' \<mapsto> ''LA_0001 LA_T_0001 - - bonafide'' @ [LF] @
                       ''LA_0001 LA_T_0002 spoof'' @ [LF] @
                       ''LA_0001 LA_T_0003 - - spoof'' @ [LF]]"

section \<open>Properties of the Metadata Loader\<close>

lemma parse_line_enough:
  "5 \<le> length (parts_of line) \<Longrightarrow>
     parse_line line =
       Inr (parts_of line ! 1, if parts_of line ! 4 = ''bonafide'' then 0 else 1)"
  by (simp add: parse_line_def Let_def)

lemma parse_line_short:
  "length (parts_of line) < 5 \<Longrightarrow> parse_line line = Inl IndexError"
  by (simp add: parse_line_def Let_def)

lemma parse_line_cases:
  "parse_line line = Inl IndexError \<and> length (parts_of line) < 5 \<or>
   parse_line line =
     Inr (parts_of line ! 1, if parts_of line ! 4 = ''bonafide'' then 0 else 1) \<and>
   5 \<le> length (parts_of line)"
  using parse_line_enough [of line] parse_line_short [of line]
  by (cases "length (parts_of line) < 5") auto

text \<open>The loop returns a list exactly when every line has five parts or more.\<close>

lemma load_metadata_loop_Inr:
  "load_metadata_loop ls data = Inr out \<longleftrightarrow>
     (\<forall>l \<in> set ls. 5 \<le> length (parts_of l)) \<and>
     out = data @
       map (\<lambda>l. (parts_of l ! 1, if parts_of l ! 4 = ''bonafide'' then 0 else 1)) ls"
proof (induction ls arbitrary: data)
  case Nil
  show ?case by auto
next
  case (Cons l ls)
  from parse_line_cases [of l] show ?case
  proof
    assume "parse_line l = Inl IndexError \<and> length (parts_of l) < 5"
    then show ?thesis by simp
  next
    assume "parse_line l =
        Inr (parts_of l ! 1, if parts_of l ! 4 = ''bonafide'' then 0 else 1) \<and>
      5 \<le> length (parts_of l)"
    then show ?thesis by (simp add: Cons.IH)
  qed
qed

text \<open>It raises exactly when some line is shorter, and then it raises \<open>IndexError\<close>.\<close>

lemma load_metadata_loop_Inl:
  "load_metadata_loop ls data = Inl e \<longleftrightarrow>
     (\<exists>l \<in> set ls. length (parts_of l) < 5) \<and> e = IndexError"
proof (induction ls arbitrary: data)
  case Nil
  show ?case by simp
next
  case (Cons l ls)
  from parse_line_cases [of l] show ?case
  proof
    assume "parse_line l = Inl IndexError \<and> length (parts_of l) < 5"
    then show ?thesis by auto
  next
    assume "parse_line l =
        Inr (parts_of l ! 1, if parts_of l ! 4 = ''bonafide'' then 0 else 1) \<and>
      5 \<le> length (parts_of l)"
    then show ?thesis by (simp add: Cons.IH)
  qed
qed

lemmas text_simps =
  readlines_def LF_def CR_def parts_of_def split_def strip_def isspace_def



text \<open>
  C5. The Metadata Loader fails when the protocol file is missing (\<open>FileNotFoundError\<close>
  from \<open>open\<close>) and when some line of the file has fewer than five whitespace-separated
  fields (\<open>IndexError\<close> from \<open>parts[1]\<close> or \<open>parts[4]\<close>). The result is the error
  alone: no line is skipped, no partial list is returned, and the constructor that
  called the loader fails with the same error.
\<close>

theorem load_metadata_fails:
  "(fs p = None \<longrightarrow>
      load_metadata fs p = Inl (FileNotFoundError p) \<and>
      init fs dir p rate tlen = Inl (FileNotFoundError p)) \<and>
   (fs p = Some content \<and> (\<exists>l \<in> set (readlines content). length (parts_of l) < 5) \<longrightarrow>
      load_metadata fs p = Inl IndexError \<and> init fs dir p rate tlen = Inl IndexError)"
proof (intro conjI impI)
  assume "fs p = None"
  then show "load_metadata fs p = Inl (FileNotFoundError p)"
    and "init fs dir p rate tlen = Inl (FileNotFoundError p)"
    by (simp_all add: load_metadata_def init_def)
next
  assume a: "fs p = Some content \<and> (\<exists>l \<in> set (readlines content). length (parts_of l) < 5)"
  then have "load_metadata_loop (readlines content) [] = Inl IndexError"
    by (simp add: load_metadata_loop_Inl)
  with a show "load_metadata fs p = Inl IndexError"
    and "init fs dir p rate tlen = Inl IndexError"
    by (simp_all add: load_metadata_def init_def)
qed

theorem load_metadata_fails_witness:
  "example_fs ''absent.txt'' = None \<and>
   load_metadata example_fs ''absent.txt'' = Inl (FileNotFoundError ''absent.txt'') \<and>
   example_fs ''bad.txt'' =
     Some (''LA_0001 LA_T_0001 - - bonafide'' @ [LF] @ ''LA_0001 LA_T_0002 spoof'' @ [LF] @
           ''LA_0001 LA_T_0003 - - spoof'' @ [LF]) \<and>
   length (parts_of (''LA_0001 LA_T_0002 spoof'' @ [LF])) < 5 \<and>
   load_metadata example_fs ''bad.txt'' = Inl IndexError"
proof -
  have n: "example_fs ''absent.txt'' = None"
    by (simp add: example_fs_def)
  have s: "example_fs ''bad.txt'' =
     Some (''LA_0001 LA_T_0001 - - bonafide'' @ [LF] @ ''LA_0001 LA_T_0002 spoof'' @ [LF] @
           ''LA_0001 LA_T_0003 - - spoof'' @ [LF])"
    by (simp add: example_fs_def)
  have l: "''LA_0001 LA_T_0002 spoof'' @ [LF] \<in>
      set (readlines (''LA_0001 LA_T_0001 - - bonafide'' @ [LF] @
           ''LA_0001 LA_T_0002 spoof'' @ [LF] @ ''LA_0001 LA_T_0003 - - spoof'' @ [LF]))"
    by (simp add: readlines_def LF_def CR_def)
  have k: "length (parts_of (''LA_0001 LA_T_0002 spoof'' @ [LF])) < 5"
    by (simp add: text_simps)
  from l k have ex: "\<exists>l \<in> set (readlines (''LA_0001 LA_T_0001 - - bonafide'' @ [LF] @
           ''LA_0001 LA_T_0002 spoof'' @ [LF] @ ''LA_0001 LA_T_0003 - - spoof'' @ [LF])).
        length (parts_of l) < 5"
    by blast
  from load_metadata_fails [of example_fs "''absent.txt''", THEN conjunct1, rule_format, OF n]
  have a: "load_metadata example_fs ''absent.txt'' = Inl (FileNotFoundError ''absent.txt'')"
    by simp
  from load_metadata_fails [of example_fs "''bad.txt''", THEN conjunct2, rule_format,
      OF conjI [OF s ex]]
  have b: "load_metadata example_fs ''bad.txt'' = Inl IndexError"
    by simp
  from n a s k b show ?thesis by blast
qed

text \<open>
  C6. For a protocol file whose lines all have five fields or more, the Metadata Loader
  returns a list; and whatever list it returns has exactly one pair per line of the
  file, the filename of the \<open>i\<close>-th pair being field 1 of the \<open>i\<close>-th line: the order
  of the pairs is the order of the lines.
\<close>

theorem one_entry_per_line_in_order:
  assumes content: "fs p = Some content"
  shows "((\<forall>l \<in> set (readlines content). 5 \<le> length (parts_of l)) \<longrightarrow>
            (\<exists>entries. load_metadata fs p = Inr entries)) \<and>
         (load_metadata fs p = Inr entries' \<longrightarrow>
            length entries' = length (readlines content) \<and>
            map fst entries' = map (\<lambda>l. parts_of l ! 1) (readlines content))"
proof (intro conjI impI)
  assume "\<forall>l \<in> set (readlines content). 5 \<le> length (parts_of l)"
  then have "\<exists>entries. load_metadata_loop (readlines content) [] = Inr entries"
    by (simp add: load_metadata_loop_Inr)
  with content show "\<exists>entries. load_metadata fs p = Inr entries"
    by (simp add: load_metadata_def)
next
  assume "load_metadata fs p = Inr entries'"
  with content have "load_metadata_loop (readlines content) [] = Inr entries'"
    by (simp add: load_metadata_def)
  then have e: "entries' =
      map (\<lambda>l. (parts_of l ! 1, if parts_of l ! 4 = ''bonafide'' then 0 else 1))
        (readlines content)"
    by (simp add: load_metadata_loop_Inr)
  then show "length entries' = length (readlines content)"
    by simp
  from e show "map fst entries' = map (\<lambda>l. parts_of l ! 1) (readlines content)"
    by (simp add: comp_def)
qed

theorem one_entry_per_line_in_order_witness:
  "example_fs ''trn.txt'' =
     Some (''LA_0001 LA_T_0001 - - bonafide'' @ [LF] @ ''LA_0001 LA_T_0002 - - spoof'' @ [LF]) \<and>
   readlines (''LA_0001 LA_T_0001 - - bonafide'' @ [LF] @ ''LA_0001 LA_T_0002 - - spoof'' @ [LF]) =
     [''LA_0001 LA_T_0001 - - bonafide'' @ [LF], ''LA_0001 LA_T_0002 - - spoof'' @ [LF]] \<and>
   load_metadata example_fs ''trn.txt'' = Inr [(''LA_T_0001'', 0), (''LA_T_0002'', 1)] \<and>
   length [(''LA_T_0001'', 0::int), (''LA_T_0002'', 1)] = 2 \<and>
   map fst [(''LA_T_0001'', 0::int), (''LA_T_0002'', 1)] = [''LA_T_0001'', ''LA_T_0002'']"
proof -
  have s: "example_fs ''trn.txt'' =
     Some (''LA_0001 LA_T_0001 - - bonafide'' @ [LF] @ ''LA_0001 LA_T_0002 - - spoof'' @ [LF])"
    by (simp add: example_fs_def)
  have r: "readlines (''LA_0001 LA_T_0001 - - bonafide'' @ [LF] @
        ''LA_0001 LA_T_0002 - - spoof'' @ [LF]) =
     [''LA_0001 LA_T_0001 - - bonafide'' @ [LF], ''LA_0001 LA_T_0002 - - spoof'' @ [LF]]"
    by (simp add: readlines_def LF_def CR_def)
  have a: "\<forall>l \<in> set (readlines (''LA_0001 LA_T_0001 - - bonafide'' @ [LF] @
        ''LA_0001 LA_T_0002 - - spoof'' @ [LF])). 5 \<le> length (parts_of l)"
    unfolding r by (simp add: text_simps)
  from one_entry_per_line_in_order [of example_fs "''trn.txt''", OF s, THEN conjunct1, THEN mp, OF a]
  obtain entries where e: "load_metadata example_fs ''trn.txt'' = Inr entries"
    by blast
  from one_entry_per_line_in_order [of example_fs "''trn.txt''", OF s, THEN conjunct2, THEN mp, OF e]
  have "length entries = 2" and "map fst entries = [''LA_T_0001'', ''LA_T_0002'']"
    unfolding r by (simp_all add: text_simps)
  moreover have "load_metadata example_fs ''trn.txt'' = Inr [(''LA_T_0001'', 0), (''LA_T_0002'', 1)]"
    by (simp add: example_fs_def load_metadata_def parse_line_def text_simps)
  ultimately show ?thesis using s r by simp
qed

text \<open>
  C9. Two protocol lines with five fields or more that agree on field 1 and on field 4
  are parsed to the same entry: fields 0, 2 and 3 and the fields after field 4 have no
  effect.
\<close>

theorem ignored_fields_have_no_effect:
  assumes "5 \<le> length (parts_of line1)" and "5 \<le> length (parts_of line2)"
    and "parts_of line1 ! 1 = parts_of line2 ! 1"
    and "parts_of line1 ! 4 = parts_of line2 ! 4"
  shows "parse_line line1 = parse_line line2 \<and> (\<exists>item. parse_line line1 = Inr item)"
  using assms by (simp add: parse_line_enough)

theorem ignored_fields_have_no_effect_witness:
  "5 \<le> length (parts_of ''LA_0001 LA_T_0001 - - bonafide'') \<and>
   5 \<le> length (parts_of ''XY_77 LA_T_0001 A01 A02 bonafide more fields'') \<and>
   parts_of ''LA_0001 LA_T_0001 - - bonafide'' ! 1 =
     parts_of ''XY_77 LA_T_0001 A01 A02 bonafide more fields'' ! 1 \<and>
   parts_of ''LA_0001 LA_T_0001 - - bonafide'' ! 4 =
     parts_of ''XY_77 LA_T_0001 A01 A02 bonafide more fields'' ! 4 \<and>
   parse_line ''LA_0001 LA_T_0001 - - bonafide'' =
     parse_line ''XY_77 LA_T_0001 A01 A02 bonafide more fields''"
proof -
  have a: "5 \<le> length (parts_of ''LA_0001 LA_T_0001 - - bonafide'')"
    by (simp add: text_simps)
  have b: "5 \<le> length (parts_of ''XY_77 LA_T_0001 A01 A02 bonafide more fields'')"
    by (simp add: text_simps)
  have c: "parts_of ''LA_0001 LA_T_0001 - - bonafide'' ! 1 =
     parts_of ''XY_77 LA_T_0001 A01 A02 bonafide more fields'' ! 1"
    by (simp add: text_simps)
  have d: "parts_of ''LA_0001 LA_T_0001 - - bonafide'' ! 4 =
     parts_of ''XY_77 LA_T_0001 A01 A02 bonafide more fields'' ! 4"
    by (simp add: text_simps)
  from ignored_fields_have_no_effect [OF a b c d] a b c d show ?thesis by blast
qed

section \<open>Properties of the tensor operations\<close>

lemma length_concat_blocks:
  "\<forall>y \<in> set ys. length y = L \<Longrightarrow> length (concat ys) = length ys * L"
  by (induction ys) auto

lemma block_of_concat:
  "\<forall>y \<in> set ys. length y = L \<Longrightarrow> i < length ys \<Longrightarrow>
     take L (drop (i * L) (concat ys)) = ys ! i"
proof (induction ys arbitrary: i)
  case Nil
  then show ?case by simp
next
  case (Cons y ys)
  show ?case
  proof (cases i)
    case 0
    with Cons.prems show ?thesis by simp
  next
    case (Suc j)
    with Cons.prems have "take L (drop (j * L) (concat ys)) = ys ! j"
      by (intro Cons.IH) auto
    with Suc Cons.prems show ?thesis by simp
  qed
qed

lemma length_chunks: "length (chunks k n xs) = k"
  by (simp add: chunks_def)

lemma nth_chunks: "i < k \<Longrightarrow> chunks k n xs ! i = take n (drop (i * n) xs)"
  by (simp add: chunks_def)

lemma length_block:
  assumes "length xs = k * n" and "i < k"
  shows "length (take n (drop (i * n) xs)) = n"
proof -
  from \<open>i < k\<close> have "Suc i * n \<le> k * n"
    by (intro mult_le_mono1) simp
  then have "i * n + n \<le> length xs"
    using assms(1) by simp
  then show ?thesis by simp
qed

lemma chunks_all_length:
  "length xs = k * n \<Longrightarrow> y \<in> set (chunks k n xs) \<Longrightarrow> length y = n"
proof -
  assume len: "length xs = k * n" and "y \<in> set (chunks k n xs)"
  then obtain i where "i < k" and "y = take n (drop (i * n) xs)"
    by (auto simp: chunks_def)
  with len show "length y = n"
    using length_block [of xs k n i] by simp
qed

lemma concat_chunks: "concat (chunks k n xs) = take (k * n) xs"
proof (induction k)
  case 0
  show ?case by (simp add: chunks_def)
next
  case (Suc k)
  have "chunks (Suc k) n xs = chunks k n xs @ [take n (drop (k * n) xs)]"
    by (simp add: chunks_def)
  moreover have "take (Suc k * n) xs = take (k * n) xs @ take n (drop (k * n) xs)"
    using take_add [of "k * n" n xs] by (simp add: add.commute)
  ultimately show ?case
    using Suc.IH by simp
qed

lemma row_matrix:
  "sizes t = [m, n] \<Longrightarrow> row t i = take n (drop (i * n) (storage t))"
  by (simp add: row_def)

lemma F_pad_matrix:
  assumes sz: "sizes t = [m, n]" and len: "length (storage t) = m * n"
  shows "\<exists>out. F_pad t p = Inr out \<and> sizes out = [m, n + p] \<and> valid_tensor out \<and>
           (\<forall>i < m. row out i = row t i @ replicate p 0)"
proof -
  define ys where "ys = map (\<lambda>r. r @ replicate p 0) (chunks m n (storage t))"
  define out where "out = \<lparr>sizes = [m, n + p], storage = concat ys\<rparr>"
  have res: "F_pad t p = Inr out"
    using sz by (simp add: F_pad_def out_def ys_def)
  have all: "\<forall>y \<in> set ys. length y = n + p"
    using chunks_all_length [OF len] by (auto simp: ys_def)
  have lys: "length ys = m"
    by (simp add: ys_def length_chunks)
  have valid: "valid_tensor out"
    using length_concat_blocks [OF all] lys by (simp add: valid_tensor_def out_def)
  have rows: "row out i = row t i @ replicate p 0" if "i < m" for i
  proof -
    have "row out i = take (n + p) (drop (i * (n + p)) (concat ys))"
      by (simp add: row_def out_def Let_def)
    also have "\<dots> = ys ! i"
      using all that lys by (intro block_of_concat) auto
    also have "\<dots> = chunks m n (storage t) ! i @ replicate p 0"
      using that by (simp add: ys_def length_chunks)
    also have "\<dots> = row t i @ replicate p 0"
      using that sz by (simp add: nth_chunks row_matrix)
    finally show ?thesis .
  qed
  show ?thesis
    using res valid rows by (intro exI [of _ out]) (simp add: out_def)
qed

lemma slice_dim1_matrix:
  assumes sz: "sizes t = [m, n]" and len: "length (storage t) = m * n"
    and stop: "0 \<le> stop"
  shows "\<exists>out. slice_dim1 t stop = Inr out \<and> sizes out = [m, min (nat stop) n] \<and>
           valid_tensor out \<and> (\<forall>i < m. row out i = take (nat stop) (row t i))"
proof -
  define k where "k = min (nat stop) n"
  define ys where "ys = map (take k) (chunks m n (storage t))"
  define out where "out = \<lparr>sizes = [m, k], storage = concat ys\<rparr>"
  have res: "slice_dim1 t stop = Inr out"
    using sz stop by (simp add: slice_dim1_def slice_stop_def out_def ys_def k_def Let_def)
  have all: "\<forall>y \<in> set ys. length y = k"
    using chunks_all_length [OF len] by (auto simp: ys_def k_def)
  have lys: "length ys = m"
    by (simp add: ys_def length_chunks)
  have valid: "valid_tensor out"
    using length_concat_blocks [OF all] lys by (simp add: valid_tensor_def out_def)
  have rows: "row out i = take (nat stop) (row t i)" if "i < m" for i
  proof -
    have "row out i = take k (drop (i * k) (concat ys))"
      by (simp add: row_def out_def Let_def)
    also have "\<dots> = ys ! i"
      using all that lys by (intro block_of_concat) auto
    also have "\<dots> = take k (row t i)"
      using that sz by (simp add: ys_def length_chunks nth_chunks row_matrix)
    also have "\<dots> = take (nat stop) (row t i)"
      using sz by (simp add: k_def row_matrix min.commute)
    finally show ?thesis .
  qed
  show ?thesis
    using res valid rows by (intro exI [of _ out]) (simp add: out_def k_def)
qed

lemma slice_dim1_full:
  assumes sz: "sizes t = [m, n]" and len: "length (storage t) = m * n"
  shows "slice_dim1 t (int n) = Inr t"
proof -
  have "map (take n) (chunks m n (storage t)) = chunks m n (storage t)"
    by (simp add: chunks_def)
  then have "concat (map (take n) (chunks m n (storage t))) = storage t"
    using len by (simp add: concat_chunks)
  then show ?thesis
    using sz by (simp add: slice_dim1_def slice_stop_def Let_def)
qed

section \<open>Properties of the Feature Pipeline\<close>


lemma valid_matrix:
  "sizes t = [m, n] \<Longrightarrow> valid_tensor t \<Longrightarrow> length (storage t) = m * n"
  by (simp add: valid_tensor_def)

lemma pad_or_truncate_returns_matrix:
  assumes res: "pad_or_truncate tlen t = Inr out" and tl: "0 \<le> tlen"
    and two: "length (sizes out) = 2"
  shows "sizes out ! 1 = nat tlen"
proof -
  from res have ne: "sizes t \<noteq> []"
    by (auto simp: pad_or_truncate_def size_last_def split: if_splits)
  show ?thesis
  proof (cases "int (last (sizes t)) < tlen")
    case True
    with res ne have out: "sizes out = butlast (sizes t) @ [last (sizes t) + nat (tlen - int (last (sizes t)))]"
      by (auto simp: pad_or_truncate_def size_last_def F_pad_def Let_def)
    with two have "length (butlast (sizes t)) = 1" by simp
    with out True show ?thesis by (simp add: nth_append)
  next
    case False
    with res ne have sl: "slice_dim1 t tlen = Inr out"
      by (simp add: pad_or_truncate_def size_last_def)
    then obtain d0 d1 inner where sz: "sizes t = d0 # d1 # inner"
      by (cases "sizes t" rule: list.exhaust; simp add: slice_dim1_def split: list.splits)
    with sl have out: "sizes out = d0 # slice_stop tlen d1 # inner"
      by (auto simp: slice_dim1_def Let_def)
    with two have "inner = []" by simp
    with sz False tl out show ?thesis
      by (simp add: slice_stop_def)
  qed
qed

lemmas example_simps =
  example_lib_def example_ds_def example_decode_def example_resample_def
  example_extractor_def list_get_def torchaudio_load_def


text \<open>The pad-or-truncate step on a valid matrix, row by row.\<close>

lemma pad_or_truncate_short:
  assumes sz: "sizes t = [m, n]" and v: "valid_tensor t" and short: "int n < tlen"
  shows "\<exists>out. pad_or_truncate tlen t = Inr out \<and> sizes out = [m, nat tlen] \<and>
           valid_tensor out \<and>
           (\<forall>i < m. row out i = row t i @ replicate (nat tlen - n) 0)"
proof -
  from short have p: "nat (tlen - int n) = nat tlen - n" and s: "n + (nat tlen - n) = nat tlen"
    by simp_all
  from short sz have "pad_or_truncate tlen t = F_pad t (nat tlen - n)"
    by (simp add: pad_or_truncate_def size_last_def Let_def p)
  with F_pad_matrix [OF sz valid_matrix [OF sz v], of "nat tlen - n"] s
  show ?thesis by simp
qed

lemma pad_or_truncate_long:
  assumes sz: "sizes t = [m, n]" and v: "valid_tensor t"
    and tl: "0 \<le> tlen" and long: "tlen \<le> int n"
  shows "\<exists>out. pad_or_truncate tlen t = Inr out \<and> sizes out = [m, nat tlen] \<and>
           valid_tensor out \<and> (\<forall>i < m. row out i = take (nat tlen) (row t i))"
proof -
  from tl long have k: "min (nat tlen) n = nat tlen" by (auto simp: min_def)
  from long sz have "pad_or_truncate tlen t = slice_dim1 t tlen"
    by (simp add: pad_or_truncate_def size_last_def)
  with slice_dim1_matrix [OF sz valid_matrix [OF sz v] tl] k
  show ?thesis by simp
qed

lemma length_row:
  assumes sz: "sizes t = [m, n]" and v: "valid_tensor t" and i: "i < m"
  shows "length (row t i) = n"
  using length_block [OF valid_matrix [OF sz v] i] sz by (simp add: row_matrix)

text \<open>The first example item up to the squeezed output of the extractor.\<close>

lemma example_extractor_input:
  "extractor_input example_lib (example_ds tlen) 0 =
     Inr (\<lparr>sizes = [3], storage = [7, 8, 9]\<rparr>, 0)"
  by (simp add: extractor_input_def squeeze0_def example_simps)

lemma example_features:
  "feature_extractor example_lib \<lparr>sizes = [3], storage = [7, 8, 9]\<rparr>
       (sampling_rate (example_ds tlen)) =
     Inr \<lparr>sizes = [1, 2, 3], storage = [7, 8, 9, - 7, - 8, - 9]\<rparr>"
  by (simp add: example_simps)

lemma example_squeezed:
  "squeeze0 \<lparr>sizes = [1, 2, 3], storage = [7, 8, 9, - 7, - 8, - 9]\<rparr> = example_mel"
  by (simp add: squeeze0_def example_mel_def)

lemma example_mel_matrix:
  "sizes example_mel = [2, 3]" "valid_tensor example_mel"
  "row example_mel 0 = [7, 8, 9]" "row example_mel 1 = [- 7, - 8, - 9]"
  by (simp_all add: example_mel_def valid_tensor_def row_def)

text \<open>
  C2. The feature matrix that \<open>__getitem__\<close> returns has a time axis of exactly the
  configured target length, whatever the length of the input. Here the target length
  is a length, that is, not negative. First: when the feature extractor returns a
  batch whose squeezed form is a valid matrix of \<open>m\<close> rows and any number \<open>n\<close> of
  frames, fewer or more than the target, \<open>__getitem__\<close> returns a valid matrix of
  sizes \<open>[m, target_length]\<close>: it holds \<open>m * target_length\<close> elements and each of its
  rows has \<open>target_length\<close> elements. Second: every matrix that \<open>__getitem__\<close> returns
  has the target length as its second size. Third: the target length of a dataset
  built with the default arguments is 3000.
\<close>

theorem time_axis_is_target_length:
  assumes tl: "0 \<le> target_length ds"
  shows "(extractor_input lib ds idx = Inr (waveform, label) \<and>
          feature_extractor lib waveform (sampling_rate ds) = Inr input_features \<and>
          sizes (squeeze0 input_features) = [m, n] \<and>
          valid_tensor (squeeze0 input_features) \<longrightarrow>
            (\<exists>mel. getitem lib ds idx = Inr (mel, label) \<and>
                   sizes mel = [m, nat (target_length ds)] \<and> valid_tensor mel \<and>
                   length (storage mel) = m * nat (target_length ds) \<and>
                   (\<forall>i < m. length (row mel i) = nat (target_length ds)))) \<and>
         (getitem lib ds idx = Inr (mel', label') \<and> length (sizes mel') = 2 \<longrightarrow>
            sizes mel' ! 1 = nat (target_length ds)) \<and>
         (init_default fs dir protocol_path = Inr ds' \<longrightarrow> target_length ds' = 3000)"
proof (intro conjI impI)
  assume a: "extractor_input lib ds idx = Inr (waveform, label) \<and>
          feature_extractor lib waveform (sampling_rate ds) = Inr input_features \<and>
          sizes (squeeze0 input_features) = [m, n] \<and>
          valid_tensor (squeeze0 input_features)"
  then have sz: "sizes (squeeze0 input_features) = [m, n]"
    and v: "valid_tensor (squeeze0 input_features)"
    by simp_all
  have "\<exists>out. pad_or_truncate (target_length ds) (squeeze0 input_features) = Inr out \<and>
      sizes out = [m, nat (target_length ds)] \<and> valid_tensor out"
  proof (cases "int n < target_length ds")
    case True
    from pad_or_truncate_short [OF sz v True] show ?thesis by blast
  next
    case False
    then have "target_length ds \<le> int n" by simp
    from pad_or_truncate_long [OF sz v tl this] show ?thesis by blast
  qed
  then obtain out
    where res: "pad_or_truncate (target_length ds) (squeeze0 input_features) = Inr out"
      and so: "sizes out = [m, nat (target_length ds)]" and vo: "valid_tensor out"
    by blast
  from so vo have len: "length (storage out) = m * nat (target_length ds)"
    by (rule valid_matrix)
  have rows: "\<forall>i < m. length (row out i) = nat (target_length ds)"
    using length_row [OF so vo] by blast
  from a res have "getitem lib ds idx = Inr (out, label)"
    by (simp add: getitem_def)
  with so vo len rows
  show "\<exists>mel. getitem lib ds idx = Inr (mel, label) \<and>
      sizes mel = [m, nat (target_length ds)] \<and> valid_tensor mel \<and>
      length (storage mel) = m * nat (target_length ds) \<and>
      (\<forall>i < m. length (row mel i) = nat (target_length ds))"
    by blast
next
  assume b: "getitem lib ds idx = Inr (mel', label') \<and> length (sizes mel') = 2"
  then obtain t where "pad_or_truncate (target_length ds) t = Inr mel'"
    by (auto simp: getitem_def split: sum.splits prod.splits)
  with b tl show "sizes mel' ! 1 = nat (target_length ds)"
    by (intro pad_or_truncate_returns_matrix) auto
next
  assume "init_default fs dir protocol_path = Inr ds'"
  then show "target_length ds' = 3000"
    by (auto simp: init_default_def init_def split: sum.splits)
qed

theorem time_axis_is_target_length_witness:
  "0 \<le> target_length (example_ds 5) \<and>
   extractor_input example_lib (example_ds 5) 0 = Inr (\<lparr>sizes = [3], storage = [7, 8, 9]\<rparr>, 0) \<and>
   feature_extractor example_lib \<lparr>sizes = [3], storage = [7, 8, 9]\<rparr>
       (sampling_rate (example_ds 5)) =
     Inr \<lparr>sizes = [1, 2, 3], storage = [7, 8, 9, - 7, - 8, - 9]\<rparr> \<and>
   sizes (squeeze0 \<lparr>sizes = [1, 2, 3], storage = [7, 8, 9, - 7, - 8, - 9 :: int]\<rparr>) = [2, 3] \<and>
   valid_tensor (squeeze0 \<lparr>sizes = [1, 2, 3], storage = [7, 8, 9, - 7, - 8, - 9 :: int]\<rparr>) \<and>
   (\<exists>mel. getitem example_lib (example_ds 5) 0 = Inr (mel, 0) \<and> sizes mel = [2, 5] \<and>
          valid_tensor mel \<and> length (storage mel) = 10 \<and>
          length (row mel 0) = 5 \<and> length (row mel 1) = 5) \<and>
   0 \<le> target_length (example_ds 2) \<and>
   (\<exists>mel. getitem example_lib (example_ds 2) 0 = Inr (mel, 0) \<and> sizes mel = [2, 2] \<and>
          valid_tensor mel \<and> length (storage mel) = 4 \<and>
          length (row mel 0) = 2 \<and> length (row mel 1) = 2) \<and>
   getitem example_lib (example_ds 2) 0 =
     Inr (\<lparr>sizes = [2, 2], storage = [7, 8, - 7, - 8]\<rparr>, 0) \<and>
   sizes \<lparr>sizes = [2, 2], storage = [7, 8, - 7, - 8 :: int]\<rparr> ! 1 = 2 \<and>
   (\<exists>ds. init_default example_fs ''flac'' ''trn.txt'' = Inr ds \<and> target_length ds = 3000)"
proof -
  have t5: "0 \<le> target_length (example_ds 5)" and t2: "0 \<le> target_length (example_ds 2)"
    by (simp_all add: example_ds_def)
  note a5 = example_extractor_input [of 5] and a2 = example_extractor_input [of 2]
  note b5 = example_features [of 5] and b2 = example_features [of 2]
  have c: "sizes (squeeze0 \<lparr>sizes = [1, 2, 3], storage = [7, 8, 9, - 7, - 8, - 9 :: int]\<rparr>) = [2, 3]"
    and v: "valid_tensor (squeeze0 \<lparr>sizes = [1, 2, 3], storage = [7, 8, 9, - 7, - 8, - 9 :: int]\<rparr>)"
    by (simp_all only: example_squeezed example_mel_matrix)
  have d: "getitem example_lib (example_ds 2) 0 =
     Inr (\<lparr>sizes = [2, 2], storage = [7, 8, - 7, - 8]\<rparr>, 0)"
    by code_simp
  have e: "length (sizes \<lparr>sizes = [2, 2], storage = [7, 8, - 7, - 8 :: int]\<rparr>) = 2"
    by simp
  obtain ds where f: "init_default example_fs ''flac'' ''trn.txt'' = Inr ds"
    by (simp add: init_default_def init_def example_fs_def load_metadata_def parse_line_def text_simps)
  from time_axis_is_target_length [OF t5, THEN conjunct1, THEN mp,
      OF conjI [OF a5 conjI [OF b5 conjI [OF c v]]]]
  obtain mel5 where "getitem example_lib (example_ds 5) 0 = Inr (mel5, 0)"
    and "sizes mel5 = [2, nat (target_length (example_ds 5))]" and "valid_tensor mel5"
    and "length (storage mel5) = 2 * nat (target_length (example_ds 5))"
    and "\<forall>i < 2. length (row mel5 i) = nat (target_length (example_ds 5))"
    by blast
  then have g: "\<exists>mel. getitem example_lib (example_ds 5) 0 = Inr (mel, 0) \<and> sizes mel = [2, 5] \<and>
          valid_tensor mel \<and> length (storage mel) = 10 \<and>
          length (row mel 0) = 5 \<and> length (row mel 1) = 5"
    by (auto simp: example_ds_def)
  from time_axis_is_target_length [OF t2, THEN conjunct1, THEN mp,
      OF conjI [OF a2 conjI [OF b2 conjI [OF c v]]]]
  obtain mel2 where "getitem example_lib (example_ds 2) 0 = Inr (mel2, 0)"
    and "sizes mel2 = [2, nat (target_length (example_ds 2))]" and "valid_tensor mel2"
    and "length (storage mel2) = 2 * nat (target_length (example_ds 2))"
    and "\<forall>i < 2. length (row mel2 i) = nat (target_length (example_ds 2))"
    by blast
  then have g2: "\<exists>mel. getitem example_lib (example_ds 2) 0 = Inr (mel, 0) \<and> sizes mel = [2, 2] \<and>
          valid_tensor mel \<and> length (storage mel) = 4 \<and>
          length (row mel 0) = 2 \<and> length (row mel 1) = 2"
    by (auto simp: example_ds_def)
  from time_axis_is_target_length [OF t2, THEN conjunct2, THEN conjunct1, THEN mp, OF conjI [OF d e]]
  have h: "sizes \<lparr>sizes = [2, 2], storage = [7, 8, - 7, - 8 :: int]\<rparr> ! 1 = 2"
    by (simp add: example_ds_def)
  from time_axis_is_target_length [OF t5, THEN conjunct2, THEN conjunct2, THEN mp, OF f]
  have i: "target_length ds = 3000" .
  from t5 a5 b5 c v g t2 g2 d h f i show ?thesis by blast
qed

text \<open>
  C3. Let the feature extractor return a batch whose squeezed form is a valid matrix
  of \<open>m\<close> rows and \<open>n\<close> frames. When \<open>n\<close> is less than the target length,
  \<open>__getitem__\<close> returns the matrix whose every row is the row of that matrix
  followed by zeros up to the target length. When \<open>n\<close> is more than the target length
  (a length, so not negative), \<open>__getitem__\<close> returns the matrix whose every row is
  the first \<open>target_length\<close> elements of the row of that matrix, with nothing added.
\<close>

theorem pad_right_or_truncate:
  assumes inp: "extractor_input lib ds idx = Inr (waveform, label)"
    and ext: "feature_extractor lib waveform (sampling_rate ds) = Inr input_features"
    and sz: "sizes (squeeze0 input_features) = [m, n]"
    and v: "valid_tensor (squeeze0 input_features)"
  shows "(int n < target_length ds \<longrightarrow>
            (\<exists>out. getitem lib ds idx = Inr (out, label) \<and>
                   sizes out = [m, nat (target_length ds)] \<and> valid_tensor out \<and>
                   (\<forall>i < m. row out i =
                      row (squeeze0 input_features) i @
                      replicate (nat (target_length ds) - n) 0))) \<and>
         (0 \<le> target_length ds \<and> target_length ds < int n \<longrightarrow>
            (\<exists>out. getitem lib ds idx = Inr (out, label) \<and>
                   sizes out = [m, nat (target_length ds)] \<and> valid_tensor out \<and>
                   (\<forall>i < m. row out i =
                      take (nat (target_length ds)) (row (squeeze0 input_features) i))))"
proof (intro conjI impI)
  assume short: "int n < target_length ds"
  from pad_or_truncate_short [OF sz v short]
  obtain out where "pad_or_truncate (target_length ds) (squeeze0 input_features) = Inr out"
    and "sizes out = [m, nat (target_length ds)]" and "valid_tensor out"
    and "\<forall>i < m. row out i =
        row (squeeze0 input_features) i @ replicate (nat (target_length ds) - n) 0"
    by blast
  moreover from this(1) inp ext have "getitem lib ds idx = Inr (out, label)"
    by (simp add: getitem_def)
  ultimately show "\<exists>out. getitem lib ds idx = Inr (out, label) \<and>
      sizes out = [m, nat (target_length ds)] \<and> valid_tensor out \<and>
      (\<forall>i < m. row out i =
         row (squeeze0 input_features) i @ replicate (nat (target_length ds) - n) 0)"
    by blast
next
  assume long: "0 \<le> target_length ds \<and> target_length ds < int n"
  then have tl: "0 \<le> target_length ds" and le: "target_length ds \<le> int n"
    by simp_all
  from pad_or_truncate_long [OF sz v tl le]
  obtain out where "pad_or_truncate (target_length ds) (squeeze0 input_features) = Inr out"
    and "sizes out = [m, nat (target_length ds)]" and "valid_tensor out"
    and "\<forall>i < m. row out i = take (nat (target_length ds)) (row (squeeze0 input_features) i)"
    by blast
  moreover from this(1) inp ext have "getitem lib ds idx = Inr (out, label)"
    by (simp add: getitem_def)
  ultimately show "\<exists>out. getitem lib ds idx = Inr (out, label) \<and>
      sizes out = [m, nat (target_length ds)] \<and> valid_tensor out \<and>
      (\<forall>i < m. row out i = take (nat (target_length ds)) (row (squeeze0 input_features) i))"
    by blast
qed

theorem pad_right_or_truncate_witness:
  "extractor_input example_lib (example_ds 5) 0 = Inr (\<lparr>sizes = [3], storage = [7, 8, 9]\<rparr>, 0) \<and>
   feature_extractor example_lib \<lparr>sizes = [3], storage = [7, 8, 9]\<rparr>
       (sampling_rate (example_ds 5)) =
     Inr \<lparr>sizes = [1, 2, 3], storage = [7, 8, 9, - 7, - 8, - 9]\<rparr> \<and>
   squeeze0 \<lparr>sizes = [1, 2, 3], storage = [7, 8, 9, - 7, - 8, - 9]\<rparr> = example_mel \<and>
   sizes example_mel = [2, 3] \<and> valid_tensor example_mel \<and>
   row example_mel 0 = [7, 8, 9] \<and> row example_mel 1 = [- 7, - 8, - 9] \<and>
   int 3 < target_length (example_ds 5) \<and>
   (\<exists>out. getitem example_lib (example_ds 5) 0 = Inr (out, 0) \<and> sizes out = [2, 5] \<and>
          valid_tensor out \<and>
          row out 0 = [7, 8, 9, 0, 0] \<and> row out 1 = [- 7, - 8, - 9, 0, 0]) \<and>
   0 \<le> target_length (example_ds 2) \<and> target_length (example_ds 2) < int 3 \<and>
   (\<exists>out. getitem example_lib (example_ds 2) 0 = Inr (out, 0) \<and> sizes out = [2, 2] \<and>
          valid_tensor out \<and> row out 0 = [7, 8] \<and> row out 1 = [- 7, - 8])"
proof -
  note a5 = example_extractor_input [of 5] and a2 = example_extractor_input [of 2]
  note b5 = example_features [of 5] and b2 = example_features [of 2]
  note q = example_squeezed
  note sz = example_mel_matrix(1) and v = example_mel_matrix(2)
  note r0 = example_mel_matrix(3) and r1 = example_mel_matrix(4)
  have sz': "sizes (squeeze0 \<lparr>sizes = [1, 2, 3], storage = [7, 8, 9, - 7, - 8, - 9 :: int]\<rparr>) = [2, 3]"
    and v': "valid_tensor (squeeze0 \<lparr>sizes = [1, 2, 3], storage = [7, 8, 9, - 7, - 8, - 9 :: int]\<rparr>)"
    by (simp_all only: q sz v)
  have short: "int 3 < target_length (example_ds 5)"
    and long: "0 \<le> target_length (example_ds 2) \<and> target_length (example_ds 2) < int 3"
    by (simp_all add: example_ds_def)
  have z: "replicate (nat 5 - 3) (0::int) = [0, 0]"
    by (simp add: numeral_2_eq_2)
  from pad_right_or_truncate [OF a5 b5 sz' v', THEN conjunct1, THEN mp, OF short, unfolded q]
  obtain out where "getitem example_lib (example_ds 5) 0 = Inr (out, 0)"
    and "sizes out = [2, nat (target_length (example_ds 5))]" and "valid_tensor out"
    and "\<forall>i < 2. row out i =
        row example_mel i @ replicate (nat (target_length (example_ds 5)) - 3) 0"
    by blast
  then have padded: "\<exists>out. getitem example_lib (example_ds 5) 0 = Inr (out, 0) \<and>
      sizes out = [2, 5] \<and> valid_tensor out \<and>
      row out 0 = [7, 8, 9, 0, 0] \<and> row out 1 = [- 7, - 8, - 9, 0, 0]"
    using r0 r1 z by (auto simp: example_ds_def)
  from pad_right_or_truncate [OF a2 b2 sz' v', THEN conjunct2, THEN mp, OF long, unfolded q]
  obtain out' where "getitem example_lib (example_ds 2) 0 = Inr (out', 0)"
    and "sizes out' = [2, nat (target_length (example_ds 2))]" and "valid_tensor out'"
    and "\<forall>i < 2. row out' i = take (nat (target_length (example_ds 2))) (row example_mel i)"
    by blast
  then have truncated: "\<exists>out. getitem example_lib (example_ds 2) 0 = Inr (out, 0) \<and>
      sizes out = [2, 2] \<and> valid_tensor out \<and> row out 0 = [7, 8] \<and> row out 1 = [- 7, - 8]"
    using r0 r1 by (auto simp: example_ds_def numeral_2_eq_2)
  from a5 b5 q sz v r0 r1 short padded long truncated show ?thesis by blast
qed

text \<open>
  C10. On a feature matrix whose number of frames is exactly the target length, the
  pad-or-truncate step returns the matrix itself: nothing is added and nothing is
  removed.
\<close>

theorem exact_length_unchanged:
  assumes sz: "sizes mel = [m, n]" and v: "valid_tensor mel" and eq: "tlen = int n"
  shows "pad_or_truncate tlen mel = Inr mel"
  using sz eq slice_dim1_full [OF sz valid_matrix [OF sz v]]
  by (simp add: pad_or_truncate_def size_last_def)

theorem exact_length_unchanged_witness:
  "sizes example_mel = [2, 3] \<and> valid_tensor example_mel \<and>
   pad_or_truncate 3 example_mel = Inr example_mel"
proof -
  have sz: "sizes example_mel = [2, 3]" and v: "valid_tensor example_mel"
    by (simp_all add: example_mel_def valid_tensor_def)
  have "(3::int) = int 3" by simp
  from exact_length_unchanged [OF sz v this] sz v show ?thesis by simp
qed






text \<open>
  C8. When the audio file of a metadata entry is not in the audio directory, accessing
  the item returns the I/O error raised by the load, with the path of the file: the
  item is not skipped and no feature matrix is returned.
\<close>

theorem missing_audio_file_raises:
  assumes ent: "list_get (metadata ds) idx = Inr (filename, label)"
    and missing: "audio_files lib (os_path_join lib (audio_dir ds) (filename @ ''.flac''))
                    = None"
  shows "getitem lib ds idx =
           Inl (AudioIOError (os_path_join lib (audio_dir ds) (filename @ ''.flac'')))"
  using ent missing
  by (simp add: getitem_def extractor_input_def torchaudio_load_def Let_def)

theorem missing_audio_file_raises_witness:
  "list_get (metadata (example_ds 3)) 3 = Inr (''LA_T_0004'', 0) \<and>
   audio_files example_lib
       (os_path_join example_lib (audio_dir (example_ds 3)) (''LA_T_0004'' @ ''.flac'')) = None \<and>
   getitem example_lib (example_ds 3) 3 = Inl (AudioIOError ''flac/LA_T_0004.flac'')"
proof -
  have e: "list_get (metadata (example_ds 3)) 3 = Inr (''LA_T_0004'', 0)"
    by (simp add: example_simps)
  have m: "audio_files example_lib
       (os_path_join example_lib (audio_dir (example_ds 3)) (''LA_T_0004'' @ ''.flac'')) = None"
    by (simp add: example_simps)
  from missing_audio_file_raises [OF e m] e m show ?thesis
    by (simp add: example_simps)
qed

end
